theory Spec2Isabelle
  imports Complex_Main
begin

section \<open>Data model of server.js\<close>

text \<open>
  One entry of \<^verbatim>\<open>zips.json\<close>, as the scoring code reads it. Every property may be
  absent (or JSON \<^verbatim>\<open>null\<close>), which is \<open>None\<close> here: the source reads the numeric
  properties through \<^verbatim>\<open>?? null\<close> (or \<^verbatim>\<open>?? 0\<close>) and the flags through \<^verbatim>\<open>!!\<close>.
  The property \<^verbatim>\<open>zip\<close> is the field \<open>zip_key\<close> (\<open>zip\<close> is a list function of HOL); it is a
  string, the canonical postal code, and the empty string is the falsy one.

  Numbers are JSON numbers, modelled as reals. The engine only compares them with the
  constants 150, 500, 90, 60, 30, 0.7 and 0.4; the scores themselves are small integers.
\<close>

record zipRecord =
  zip_key :: "string option"
  city :: "string option"
  state :: "string option"
  population_density :: "real option"
  drive_time_city_100k_min :: "real option"
  drive_time_interstate_min :: "real option"
  is_mountain :: "bool option"
  is_island :: "bool option"
  winter_risk :: "bool option"
  carrier_scarcity_index :: "real option"

text \<open>The object \<^verbatim>\<open>components\<close> that \<^verbatim>\<open>computeRemotenessComponents\<close> builds and returns.\<close>

record components =
  densityScore :: int
  metroAccessScore :: int
  roadTerrainScore :: int
  carrierScore :: int
  totalScore :: int

text \<open>
  The object literal returned by \<^verbatim>\<open>suggestedSurcharge\<close>; its properties \<^verbatim>\<open>type\<close>,
  \<^verbatim>\<open>min\<close> and \<^verbatim>\<open>max\<close> carry a suffix here.
\<close>

record surcharge =
  currency :: string
  type_s :: string
  min_s :: int
  max_s :: int

section \<open>Core scoring logic\<close>

text \<open>\<^verbatim>\<open>!!x\<close> on a flag that is a boolean or absent.\<close>

definition truthy :: "bool option \<Rightarrow> bool" where
  "truthy b = (case b of None \<Rightarrow> False | Some v \<Rightarrow> v)"

definition winterMonths :: "int list" where
  "winterMonths = [11, 12, 1, 2, 3]"

text \<open>
  \<^verbatim>\<open>computeRemotenessComponents\<close> mutates the object \<^verbatim>\<open>components\<close> block by block.
  Each block of the source is a function from the object before it to the object after
  it, and each \<^verbatim>\<open>+=\<close> is a record update.
\<close>

text \<open>Density score: skipped when \<^verbatim>\<open>density\<close> is \<^verbatim>\<open>null\<close>.\<close>

definition density_block :: "real option \<Rightarrow> components \<Rightarrow> components" where
  "density_block density components =
    (case density of
       None \<Rightarrow> components
     | Some d \<Rightarrow>
        if d < 150 then components\<lparr>densityScore := densityScore components + 2\<rparr>
        else if d < 500 then components\<lparr>densityScore := densityScore components + 1\<rparr>
        else components)"

text \<open>Metro access score: the drive time to a city, then the drive time to an interstate.\<close>

definition metro_block :: "real option \<Rightarrow> real option \<Rightarrow> components \<Rightarrow> components" where
  "metro_block driveCity driveInterstate components =
    (let components =
          (case driveCity of
             None \<Rightarrow> components
           | Some t \<Rightarrow>
              if t > 90 then components\<lparr>metroAccessScore := metroAccessScore components + 2\<rparr>
              else if t > 60 then components\<lparr>metroAccessScore := metroAccessScore components + 1\<rparr>
              else components)
     in case driveInterstate of
          None \<Rightarrow> components
        | Some t \<Rightarrow>
           if t > 30 then components\<lparr>metroAccessScore := metroAccessScore components + 1\<rparr>
           else components)"

text \<open>Terrain / geography: the two flags, one after the other.\<close>

definition terrain_block :: "bool \<Rightarrow> bool \<Rightarrow> components \<Rightarrow> components" where
  "terrain_block isMountain isIsland components =
    (let components =
          (if isMountain then components\<lparr>roadTerrainScore := roadTerrainScore components + 1\<rparr>
           else components)
     in if isIsland then components\<lparr>roadTerrainScore := roadTerrainScore components + 1\<rparr>
        else components)"

text \<open>Winter season effect: \<^verbatim>\<open>winterRisk && winterMonths.includes(month)\<close>.\<close>

definition winter_block :: "bool \<Rightarrow> int \<Rightarrow> components \<Rightarrow> components" where
  "winter_block winterRisk month components =
    (if winterRisk \<and> month \<in> set winterMonths
     then components\<lparr>roadTerrainScore := roadTerrainScore components + 1\<rparr>
     else components)"

text \<open>Carrier scarcity score.\<close>

definition carrier_block :: "real \<Rightarrow> components \<Rightarrow> components" where
  "carrier_block carrierScarcity components =
    (if carrierScarcity > 0.7 then components\<lparr>carrierScore := carrierScore components + 2\<rparr>
     else if carrierScarcity > 0.4 then components\<lparr>carrierScore := carrierScore components + 1\<rparr>
     else components)"

text \<open>The final assignment to \<^verbatim>\<open>components.totalScore\<close>.\<close>

definition total_block :: "components \<Rightarrow> components" where
  "total_block components =
    components\<lparr>totalScore := densityScore components + metroAccessScore components
                               + roadTerrainScore components + carrierScore components\<rparr>"

text \<open>
  \<^verbatim>\<open>computeRemotenessComponents(zipRecord, month)\<close>. An absent record (\<^verbatim>\<open>!zipRecord\<close>) is
  \<open>None\<close> and returns the initial object. \<^verbatim>\<open>carrier_scarcity_index ?? 0\<close> is the only
  default that is a number.
\<close>

definition computeRemotenessComponents :: "zipRecord option \<Rightarrow> int \<Rightarrow> components" where
  "computeRemotenessComponents zipRecord month =
    (let components = \<lparr>densityScore = 0, metroAccessScore = 0, roadTerrainScore = 0,
                       carrierScore = 0, totalScore = 0\<rparr>
     in case zipRecord of
       None \<Rightarrow> components
     | Some z \<Rightarrow>
        (let density = population_density z;
             driveCity = drive_time_city_100k_min z;
             driveInterstate = drive_time_interstate_min z;
             isMountain = truthy (is_mountain z);
             isIsland = truthy (is_island z);
             winterRisk = truthy (winter_risk z);
             carrierScarcity = (case carrier_scarcity_index z of None \<Rightarrow> 0 | Some c \<Rightarrow> c);
             components = density_block density components;
             components = metro_block driveCity driveInterstate components;
             components = terrain_block isMountain isIsland components;
             components = winter_block winterRisk month components;
             components = carrier_block carrierScarcity components
         in total_block components))"

text \<open>\<^verbatim>\<open>categorizeScore(totalScore)\<close>: the category is a string in the source.\<close>

definition categorizeScore :: "int \<Rightarrow> string" where
  "categorizeScore score =
    (if score \<le> 2 then ''URBAN_EASY''
     else if score \<le> 4 then ''NORMAL''
     else if score \<le> 6 then ''RURAL_DIFFICULT''
     else ''REMOTE_PREMIUM'')"

text \<open>\<^verbatim>\<open>suggestedSurcharge(category)\<close>: a \<^verbatim>\<open>switch\<close> on the string, with its default.\<close>

definition suggestedSurcharge :: "string \<Rightarrow> surcharge" where
  "suggestedSurcharge category =
    (if category = ''URBAN_EASY''
       then \<lparr>currency = ''USD'', type_s = ''lump_sum'', min_s = 0, max_s = 0\<rparr>
     else if category = ''NORMAL''
       then \<lparr>currency = ''USD'', type_s = ''lump_sum'', min_s = 25, max_s = 50\<rparr>
     else if category = ''RURAL_DIFFICULT''
       then \<lparr>currency = ''USD'', type_s = ''lump_sum'', min_s = 75, max_s = 150\<rparr>
     else if category = ''REMOTE_PREMIUM''
       then \<lparr>currency = ''USD'', type_s = ''lump_sum'', min_s = 150, max_s = 300\<rparr>
     else \<lparr>currency = ''USD'', type_s = ''lump_sum'', min_s = 0, max_s = 0\<rparr>)"

text \<open>
  The \<^verbatim>\<open>totalSurcharge\<close> object of the \<^verbatim>\<open>/trip-score\<close> handler, as a function of the two
  endpoint surcharges it is built from.
\<close>

definition totalSurcharge :: "surcharge \<Rightarrow> surcharge \<Rightarrow> surcharge" where
  "totalSurcharge pickupSurcharge deliverySurcharge =
    \<lparr>currency = ''USD'', type_s = ''lump_sum'',
     min_s = min_s pickupSurcharge + min_s deliverySurcharge,
     max_s = max_s pickupSurcharge + max_s deliverySurcharge\<rparr>"

section \<open>The ZIP data held in memory\<close>

text \<open>
  \<^verbatim>\<open>loadZipData\<close> reads \<^verbatim>\<open>zips.json\<close> and parses it inside a \<^verbatim>\<open>try\<close>. What the file
  system and \<^verbatim>\<open>JSON.parse\<close> hand to the function is its input here: \<open>Inl ReadError\<close> when
  \<^verbatim>\<open>readFileSync\<close> throws, \<open>Inl SyntaxError\<close> when \<^verbatim>\<open>JSON.parse\<close> throws, and otherwise
  the parsed value. A parsed value that is not an array has no \<^verbatim>\<open>forEach\<close>, so the call
  throws a \<^verbatim>\<open>TypeError\<close>. An array entry is an object or \<^verbatim>\<open>null\<close> (\<open>None\<close>): reading
  \<^verbatim>\<open>z.zip\<close> of \<^verbatim>\<open>null\<close> throws a \<^verbatim>\<open>TypeError\<close> too.
\<close>

datatype error = ReadError | SyntaxError | TypeError

datatype parsed = NotArray | Entries "zipRecord option list"

type_synonym source = "error + parsed"

text \<open>
  The two globals \<^verbatim>\<open>zipData\<close> and \<^verbatim>\<open>zipIndex\<close>. The index is the object's own
  properties, a map from the key string to the entry.
\<close>

record store =
  zipData :: "zipRecord option list"
  zipIndex :: "string \<rightharpoonup> zipRecord"

text \<open>What \<^verbatim>\<open>loadZipData\<close> writes to the console: the count, or the error.\<close>

datatype logline = Loaded nat | ErrorLoading error

text \<open>
  The body of the \<^verbatim>\<open>forEach\<close> callback: \<^verbatim>\<open>if (z.zip) zipIndex[String(z.zip)] = z\<close>.
  A string is truthy unless it is empty.
\<close>

definition index_entry ::
  "zipRecord option \<Rightarrow> (string \<rightharpoonup> zipRecord) \<Rightarrow> error + (string \<rightharpoonup> zipRecord)" where
  "index_entry z idx =
    (case z of
       None \<Rightarrow> Inl TypeError
     | Some r \<Rightarrow>
        (case zip_key r of
           None \<Rightarrow> Inr idx
         | Some k \<Rightarrow> if k \<noteq> [] then Inr (idx(k \<mapsto> r)) else Inr idx))"

text \<open>\<^verbatim>\<open>zipData.forEach\<close>: the entries in order; an exception ends the loop.\<close>

fun forEach_index ::
  "zipRecord option list \<Rightarrow> (string \<rightharpoonup> zipRecord) \<Rightarrow> error + (string \<rightharpoonup> zipRecord)" where
  "forEach_index [] idx = Inr idx"
| "forEach_index (z # zs) idx =
    (case index_entry z idx of
       Inl e \<Rightarrow> Inl e
     | Inr idx' \<Rightarrow> forEach_index zs idx')"

text \<open>The \<^verbatim>\<open>try\<close> block of \<^verbatim>\<open>loadZipData\<close>: the store it builds, or the exception thrown.\<close>

definition try_load :: "source \<Rightarrow> error + store" where
  "try_load src =
    (case src of
       Inl e \<Rightarrow> Inl e
     | Inr NotArray \<Rightarrow> Inl TypeError
     | Inr (Entries zs) \<Rightarrow>
        (case forEach_index zs Map.empty of
           Inl e \<Rightarrow> Inl e
         | Inr idx \<Rightarrow> Inr \<lparr>zipData = zs, zipIndex = idx\<rparr>))"

text \<open>
  \<^verbatim>\<open>loadZipData()\<close>: the new globals and the console line. The \<^verbatim>\<open>catch\<close> block assigns
  \<^verbatim>\<open>zipData = []\<close> and \<^verbatim>\<open>zipIndex = {}\<close>. Both branches overwrite both globals, and the
  function returns nothing to its caller.
\<close>

definition loadZipData :: "source \<Rightarrow> store \<Rightarrow> store \<times> logline" where
  "loadZipData src st =
    (case try_load src of
       Inr st' \<Rightarrow> (st', Loaded (length (zipData st')))
     | Inl err \<Rightarrow> (\<lparr>zipData = [], zipIndex = Map.empty\<rparr>, ErrorLoading err))"

text \<open>The JSON body that \<^verbatim>\<open>POST /reload-zips\<close> answers with.\<close>

record reload_response =
  status :: string
  total_zips :: nat

text \<open>\<^verbatim>\<open>app.post("/reload-zips")\<close>: the store after the call and the response.\<close>

definition reload_zips :: "source \<Rightarrow> store \<Rightarrow> store \<times> reload_response" where
  "reload_zips src st =
    (let st' = fst (loadZipData src st)
     in (st', \<lparr>status = ''reloaded'', total_zips = length (zipData st')\<rparr>))"

section \<open>The scoring endpoints\<close>

text \<open>
  \<^verbatim>\<open>normalizeMonth\<close>: \<open>m\<close> is the result of \<^verbatim>\<open>parseInt(monthParam, 10)\<close>, \<open>None\<close> for
  \<^verbatim>\<open>NaN\<close>; \<open>now\<close> is \<^verbatim>\<open>new Date().getMonth() + 1\<close>.
\<close>

definition normalizeMonth :: "int option \<Rightarrow> int \<Rightarrow> int" where
  "normalizeMonth m now =
    (case m of
       None \<Rightarrow> now
     | Some v \<Rightarrow> if v < 1 \<or> v > 12 then now else v)"

datatype http_error = BadRequest string | NotFound string

record location_result =
  res_zip :: "string option"
  res_city :: "string option"
  res_state :: "string option"
  res_components :: components
  res_category :: string
  res_suggested_surcharge :: surcharge

text \<open>The part of both handlers that scores one record found in the index.\<close>

definition score_record :: "zipRecord \<Rightarrow> int \<Rightarrow> location_result" where
  "score_record record monthNum =
    (let components = computeRemotenessComponents (Some record) monthNum;
         category = categorizeScore (totalScore components);
         surcharge = suggestedSurcharge category
     in \<lparr>res_zip = zip_key record, res_city = city record, res_state = state record,
         res_components = components, res_category = category,
         res_suggested_surcharge = surcharge\<rparr>)"

text \<open>
  \<^verbatim>\<open>GET /location-score\<close>. The query parameter \<^verbatim>\<open>zip\<close> is a string or absent, and
  \<^verbatim>\<open>!zip\<close> holds for the absent and the empty one.
\<close>

definition location_score ::
  "store \<Rightarrow> string option \<Rightarrow> int \<Rightarrow> http_error + (int \<times> location_result)" where
  "location_score st zip_param monthNum =
    (case zip_param of
       None \<Rightarrow> Inl (BadRequest ''Missing required parameter: zip'')
     | Some z \<Rightarrow>
        if z = [] then Inl (BadRequest ''Missing required parameter: zip'')
        else (case zipIndex st z of
                None \<Rightarrow> Inl (NotFound (''ZIP '' @ z @ '' not found in dataset''))
              | Some record \<Rightarrow> Inr (monthNum, score_record record monthNum)))"

record trip_result =
  trip_month :: int
  pickup :: location_result
  delivery :: location_result
  total_suggested_surcharge :: surcharge

text \<open>\<^verbatim>\<open>GET /trip-score\<close>: both keys are looked up before either is reported missing.\<close>

definition trip_score ::
  "store \<Rightarrow> string option \<Rightarrow> string option \<Rightarrow> int \<Rightarrow> http_error + trip_result" where
  "trip_score st pickup_zip delivery_zip monthNum =
    (case (pickup_zip, delivery_zip) of
       (Some p, Some d) \<Rightarrow>
        if p = [] \<or> d = []
        then Inl (BadRequest ''Missing required parameters: pickup_zip and delivery_zip'')
        else (case zipIndex st p of
                None \<Rightarrow> Inl (NotFound (''Pickup ZIP '' @ p @ '' not found in dataset''))
              | Some pickupRecord \<Rightarrow>
                 (case zipIndex st d of
                    None \<Rightarrow> Inl (NotFound (''Delivery ZIP '' @ d @ '' not found in dataset''))
                  | Some deliveryRecord \<Rightarrow>
                     (let pr = score_record pickupRecord monthNum;
                          dr = score_record deliveryRecord monthNum
                      in Inr \<lparr>trip_month = monthNum, pickup = pr, delivery = dr,
                              total_suggested_surcharge =
                                totalSurcharge (res_suggested_surcharge pr)
                                               (res_suggested_surcharge dr)\<rparr>)))
     | _ \<Rightarrow> Inl (BadRequest ''Missing required parameters: pickup_zip and delivery_zip''))"

section \<open>Properties of the scoring blocks\<close>

lemma density_block_sel:
  "densityScore (density_block d c) = densityScore c +
     (case d of None \<Rightarrow> 0 | Some v \<Rightarrow> if v < 150 then 2 else if v < 500 then 1 else 0)"
  "metroAccessScore (density_block d c) = metroAccessScore c"
  "roadTerrainScore (density_block d c) = roadTerrainScore c"
  "carrierScore (density_block d c) = carrierScore c"
  by (simp_all add: density_block_def split: option.splits)

lemma metro_block_sel:
  "densityScore (metro_block t u c) = densityScore c"
  "metroAccessScore (metro_block t u c) = metroAccessScore c +
     (case t of None \<Rightarrow> 0 | Some v \<Rightarrow> if v > 90 then 2 else if v > 60 then 1 else 0) +
     (case u of None \<Rightarrow> 0 | Some v \<Rightarrow> if v > 30 then 1 else 0)"
  "roadTerrainScore (metro_block t u c) = roadTerrainScore c"
  "carrierScore (metro_block t u c) = carrierScore c"
  by (simp_all add: metro_block_def Let_def split: option.splits)

lemma terrain_block_sel:
  "densityScore (terrain_block a b c) = densityScore c"
  "metroAccessScore (terrain_block a b c) = metroAccessScore c"
  "roadTerrainScore (terrain_block a b c) =
     roadTerrainScore c + (if a then 1 else 0) + (if b then 1 else 0)"
  "carrierScore (terrain_block a b c) = carrierScore c"
  by (simp_all add: terrain_block_def Let_def)

lemma winter_block_sel:
  "densityScore (winter_block w m c) = densityScore c"
  "metroAccessScore (winter_block w m c) = metroAccessScore c"
  "roadTerrainScore (winter_block w m c) =
     roadTerrainScore c + (if w \<and> m \<in> {11, 12, 1, 2, 3} then 1 else 0)"
  "carrierScore (winter_block w m c) = carrierScore c"
  by (simp_all add: winter_block_def winterMonths_def)

lemma carrier_block_sel:
  "densityScore (carrier_block s c) = densityScore c"
  "metroAccessScore (carrier_block s c) = metroAccessScore c"
  "roadTerrainScore (carrier_block s c) = roadTerrainScore c"
  "carrierScore (carrier_block s c) =
     carrierScore c + (if s > 0.7 then 2 else if s > 0.4 then 1 else 0)"
  by (simp_all add: carrier_block_def)

lemma total_block_sel:
  "densityScore (total_block c) = densityScore c"
  "metroAccessScore (total_block c) = metroAccessScore c"
  "roadTerrainScore (total_block c) = roadTerrainScore c"
  "carrierScore (total_block c) = carrierScore c"
  "totalScore (total_block c) =
     densityScore c + metroAccessScore c + roadTerrainScore c + carrierScore c"
  by (simp_all add: total_block_def)

lemmas block_sel = density_block_sel metro_block_sel terrain_block_sel winter_block_sel
  carrier_block_sel total_block_sel

text \<open>What each property of the returned object is, read off the record scored.\<close>

lemma compute_absent:
  "computeRemotenessComponents None m =
     \<lparr>densityScore = 0, metroAccessScore = 0, roadTerrainScore = 0, carrierScore = 0,
      totalScore = 0\<rparr>"
  by (simp add: computeRemotenessComponents_def)

lemma compute_densityScore:
  "densityScore (computeRemotenessComponents (Some z) m) =
    (case population_density z of
       None \<Rightarrow> 0
     | Some d \<Rightarrow> if d < 150 then 2 else if d < 500 then 1 else 0)"
  by (simp add: computeRemotenessComponents_def block_sel Let_def split del: if_split)

lemma compute_metroAccessScore:
  "metroAccessScore (computeRemotenessComponents (Some z) m) =
    (case drive_time_city_100k_min z of
       None \<Rightarrow> 0
     | Some t \<Rightarrow> if t > 90 then 2 else if t > 60 then 1 else 0)
    + (case drive_time_interstate_min z of
         None \<Rightarrow> 0
       | Some t \<Rightarrow> if t > 30 then 1 else 0)"
  by (simp add: computeRemotenessComponents_def block_sel Let_def split del: if_split)

lemma compute_roadTerrainScore:
  "roadTerrainScore (computeRemotenessComponents (Some z) m) =
    (if truthy (is_mountain z) then 1 else 0) + (if truthy (is_island z) then 1 else 0)
    + (if truthy (winter_risk z) \<and> m \<in> {11, 12, 1, 2, 3} then 1 else 0)"
  by (simp add: computeRemotenessComponents_def block_sel Let_def split del: if_split)

lemma compute_carrierScore:
  "carrierScore (computeRemotenessComponents (Some z) m) =
    (case carrier_scarcity_index z of
       None \<Rightarrow> 0
     | Some s \<Rightarrow> if s > 0.7 then 2 else if s > 0.4 then 1 else 0)"
  by (cases "carrier_scarcity_index z")
     (simp_all add: computeRemotenessComponents_def block_sel Let_def split del: if_split)

lemma compute_totalScore:
  "totalScore (computeRemotenessComponents r m) =
     densityScore (computeRemotenessComponents r m)
     + metroAccessScore (computeRemotenessComponents r m)
     + roadTerrainScore (computeRemotenessComponents r m)
     + carrierScore (computeRemotenessComponents r m)"
  by (cases r)
     (simp_all add: computeRemotenessComponents_def block_sel Let_def split del: if_split)

lemma densityScore_bounds:
  "0 \<le> densityScore (computeRemotenessComponents r m)
   \<and> densityScore (computeRemotenessComponents r m) \<le> 2"
  by (cases r) (simp_all add: compute_absent compute_densityScore split: option.splits)

lemma metroAccessScore_bounds:
  "0 \<le> metroAccessScore (computeRemotenessComponents r m)
   \<and> metroAccessScore (computeRemotenessComponents r m) \<le> 3"
  by (cases r) (simp_all add: compute_absent compute_metroAccessScore split: option.splits)

lemma roadTerrainScore_bounds:
  "0 \<le> roadTerrainScore (computeRemotenessComponents r m)
   \<and> roadTerrainScore (computeRemotenessComponents r m) \<le> 3"
  by (cases r) (simp_all add: compute_absent compute_roadTerrainScore)

lemma carrierScore_bounds:
  "0 \<le> carrierScore (computeRemotenessComponents r m)
   \<and> carrierScore (computeRemotenessComponents r m) \<le> 2"
  by (cases r) (simp_all add: compute_absent compute_carrierScore split: option.splits)

section \<open>The scoring engine: claims\<close>

text \<open>
  C2, as the source has it. The four blocks add at most 2, 3, 3 and 2, so the total score of
  every record (an absent one too) in every month lies between 0 and 10; the bound 8
  is exceeded.
\<close>

theorem totalScore_range:
  "0 \<le> totalScore (computeRemotenessComponents r month)
   \<and> totalScore (computeRemotenessComponents r month) \<le> 10"
  using densityScore_bounds[of r month] metroAccessScore_bounds[of r month]
    roadTerrainScore_bounds[of r month] carrierScore_bounds[of r month]
  by (simp add: compute_totalScore)

text \<open>
  C2 fails as stated: a sparse, far, mountainous island with winter risk and scarce
  carriers, scored in January, has total score 10, which is not in the range 0 to 8.
\<close>

theorem totalScore_exceeds_8:
  "\<not> (0 \<le> totalScore (computeRemotenessComponents
          (Some \<lparr>zip_key = Some ''99999'', city = None, state = None,
                 population_density = Some 100, drive_time_city_100k_min = Some 95,
                 drive_time_interstate_min = Some 40, is_mountain = Some True,
                 is_island = Some True, winter_risk = Some True,
                 carrier_scarcity_index = Some 0.8\<rparr>) 1)
      \<and> totalScore (computeRemotenessComponents
          (Some \<lparr>zip_key = Some ''99999'', city = None, state = None,
                 population_density = Some 100, drive_time_city_100k_min = Some 95,
                 drive_time_interstate_min = Some 40, is_mountain = Some True,
                 is_island = Some True, winter_risk = Some True,
                 carrier_scarcity_index = Some 0.8\<rparr>) 1) \<le> 8)"
  by (simp add: compute_totalScore compute_densityScore compute_metroAccessScore
      compute_roadTerrainScore compute_carrierScore truthy_def)

text \<open>
  C3. The record of the example, scored in month 1: density 2, metro access 3, road and
  terrain 2, carrier 2, total 9, category \<^verbatim>\<open>REMOTE_PREMIUM\<close>, surcharge 150 to 300.
\<close>

theorem example_record_month_1:
  "computeRemotenessComponents
     (Some \<lparr>zip_key = None, city = None, state = None,
            population_density = Some 100, drive_time_city_100k_min = Some 95,
            drive_time_interstate_min = Some 40, is_mountain = Some True,
            is_island = Some False, winter_risk = Some True,
            carrier_scarcity_index = Some 0.8\<rparr>) 1
    = \<lparr>densityScore = 2, metroAccessScore = 3, roadTerrainScore = 2, carrierScore = 2,
       totalScore = 9\<rparr>
   \<and> categorizeScore (totalScore (computeRemotenessComponents
        (Some \<lparr>zip_key = None, city = None, state = None,
               population_density = Some 100, drive_time_city_100k_min = Some 95,
               drive_time_interstate_min = Some 40, is_mountain = Some True,
               is_island = Some False, winter_risk = Some True,
               carrier_scarcity_index = Some 0.8\<rparr>) 1)) = ''REMOTE_PREMIUM''
   \<and> suggestedSurcharge (categorizeScore (totalScore (computeRemotenessComponents
        (Some \<lparr>zip_key = None, city = None, state = None,
               population_density = Some 100, drive_time_city_100k_min = Some 95,
               drive_time_interstate_min = Some 40, is_mountain = Some True,
               is_island = Some False, winter_risk = Some True,
               carrier_scarcity_index = Some 0.8\<rparr>) 1)))
      = \<lparr>currency = ''USD'', type_s = ''lump_sum'', min_s = 150, max_s = 300\<rparr>"
  by (simp add: computeRemotenessComponents_def density_block_def metro_block_def
      terrain_block_def winter_block_def carrier_block_def total_block_def truthy_def
      winterMonths_def categorizeScore_def suggestedSurcharge_def)

text \<open>
  C4. For every record, absent or not, and every month, the total is exactly the sum of
  the four sub-scores, and no sub-score is negative.
\<close>

theorem total_is_sum_of_components:
  "totalScore (computeRemotenessComponents r month) =
     densityScore (computeRemotenessComponents r month)
     + metroAccessScore (computeRemotenessComponents r month)
     + roadTerrainScore (computeRemotenessComponents r month)
     + carrierScore (computeRemotenessComponents r month)
   \<and> 0 \<le> densityScore (computeRemotenessComponents r month)
   \<and> 0 \<le> metroAccessScore (computeRemotenessComponents r month)
   \<and> 0 \<le> roadTerrainScore (computeRemotenessComponents r month)
   \<and> 0 \<le> carrierScore (computeRemotenessComponents r month)"
  using densityScore_bounds[of r month] metroAccessScore_bounds[of r month]
    roadTerrainScore_bounds[of r month] carrierScore_bounds[of r month]
    compute_totalScore[of r month]
  by simp

text \<open>
  C5. The four categories split the totals into the ranges up to 2, 3 to 4, 5 to 6 and
  from 7 on: each category is returned on its range and nowhere else, and nothing but
  these four strings is returned.
\<close>

theorem categorizeScore_partition:
  "(categorizeScore t = ''URBAN_EASY'' \<longleftrightarrow> t \<le> 2)
   \<and> (categorizeScore t = ''NORMAL'' \<longleftrightarrow> 3 \<le> t \<and> t \<le> 4)
   \<and> (categorizeScore t = ''RURAL_DIFFICULT'' \<longleftrightarrow> 5 \<le> t \<and> t \<le> 6)
   \<and> (categorizeScore t = ''REMOTE_PREMIUM'' \<longleftrightarrow> 7 \<le> t)
   \<and> categorizeScore t \<in> {''URBAN_EASY'', ''NORMAL'', ''RURAL_DIFFICULT'', ''REMOTE_PREMIUM''}"
  by (auto simp add: categorizeScore_def)

text \<open>
  C6. The road and terrain score is one for a mountain, one for an island, and one more
  exactly when the record has winter risk and the month is one of 11, 12, 1, 2, 3. So the
  score with the flag exceeds the score of the same record without it by one in those
  months and by nothing in the others: month 3 has the bonus, month 4 has none.
\<close>

theorem winter_bonus_iff:
  "roadTerrainScore (computeRemotenessComponents (Some z) month) =
     (if truthy (is_mountain z) then 1 else 0) + (if truthy (is_island z) then 1 else 0)
     + (if truthy (winter_risk z) \<and> month \<in> {11, 12, 1, 2, 3} then 1 else 0)
   \<and> roadTerrainScore (computeRemotenessComponents (Some z) month)
       - roadTerrainScore (computeRemotenessComponents (Some (z\<lparr>winter_risk := Some False\<rparr>)) month)
     = (if truthy (winter_risk z) \<and> month \<in> {11, 12, 1, 2, 3} then 1 else 0)
   \<and> roadTerrainScore (computeRemotenessComponents (Some (z\<lparr>winter_risk := Some True\<rparr>)) 3)
     = roadTerrainScore (computeRemotenessComponents (Some (z\<lparr>winter_risk := Some False\<rparr>)) 3) + 1
   \<and> roadTerrainScore (computeRemotenessComponents (Some (z\<lparr>winter_risk := Some True\<rparr>)) 4)
     = roadTerrainScore (computeRemotenessComponents (Some (z\<lparr>winter_risk := Some False\<rparr>)) 4)"
  by (simp add: compute_roadTerrainScore truthy_def)

text \<open>
  C7. The trip surcharge adds the two minima and the two maxima, in USD as a lump sum,
  and nothing else enters it.
\<close>

theorem totalSurcharge_sum:
  "min_s (totalSurcharge a b) = min_s a + min_s b
   \<and> max_s (totalSurcharge a b) = max_s a + max_s b
   \<and> currency (totalSurcharge a b) = ''USD''
   \<and> type_s (totalSurcharge a b) = ''lump_sum''"
  by (simp add: totalSurcharge_def)

text \<open>
  C8. An absent record scores zero in every component and in total, in every month; its
  category is \<^verbatim>\<open>URBAN_EASY\<close> and its surcharge is 0 to 0.
\<close>

theorem absent_record_scores_zero:
  "computeRemotenessComponents None month =
     \<lparr>densityScore = 0, metroAccessScore = 0, roadTerrainScore = 0, carrierScore = 0,
      totalScore = 0\<rparr>
   \<and> categorizeScore (totalScore (computeRemotenessComponents None month)) = ''URBAN_EASY''
   \<and> suggestedSurcharge (categorizeScore (totalScore (computeRemotenessComponents None month)))
     = \<lparr>currency = ''USD'', type_s = ''lump_sum'', min_s = 0, max_s = 0\<rparr>"
  by (simp add: compute_absent categorizeScore_def suggestedSurcharge_def)

section \<open>Properties of loading\<close>

lemma forEach_index_append:
  "forEach_index (xs @ ys) idx =
     (case forEach_index xs idx of Inl e \<Rightarrow> Inl e | Inr i \<Rightarrow> forEach_index ys i)"
  by (induction xs arbitrary: idx) (simp_all split: sum.splits)

lemma index_entry_object:
  "index_entry (Some r) idx =
     Inr (case zip_key r of None \<Rightarrow> idx | Some k \<Rightarrow> if k \<noteq> [] then idx(k \<mapsto> r) else idx)"
  by (simp add: index_entry_def split: option.splits)

lemma forEach_index_objects:
  "None \<notin> set zs \<Longrightarrow> \<exists>i. forEach_index zs idx = Inr i"
proof (induction zs arbitrary: idx)
  case Nil
  then show ?case by simp
next
  case (Cons z zs)
  then obtain r where z: "z = Some r" by (cases z) auto
  from Cons.prems have "None \<notin> set zs" by simp
  then show ?case
    using Cons.IH by (simp add: z index_entry_object)
qed

lemma forEach_index_null:
  "None \<in> set zs \<Longrightarrow> forEach_index zs idx = Inl TypeError"
proof (induction zs arbitrary: idx)
  case Nil
  then show ?case by simp
next
  case (Cons z zs)
  show ?case
  proof (cases z)
    case None
    then show ?thesis by (simp add: index_entry_def)
  next
    case (Some r)
    with Cons.prems have "None \<in> set zs" by simp
    then show ?thesis
      using Cons.IH by (simp add: Some index_entry_object)
  qed
qed

text \<open>Entries with another key, or with none, leave the lookup of a key as it was.\<close>

lemma forEach_index_other_keys:
  "forEach_index ys idx = Inr i \<Longrightarrow>
   (\<And>r'. Some r' \<in> set ys \<Longrightarrow> zip_key r' \<noteq> Some k) \<Longrightarrow> i k = idx k"
proof (induction ys arbitrary: idx)
  case Nil
  then show ?case by simp
next
  case (Cons y ys)
  from Cons.prems(1) obtain r where y: "y = Some r"
    by (cases y) (auto simp add: index_entry_def)
  define idx' where
    "idx' = (case zip_key r of None \<Rightarrow> idx | Some k' \<Rightarrow> if k' \<noteq> [] then idx(k' \<mapsto> r) else idx)"
  from Cons.prems(1) have run: "forEach_index ys idx' = Inr i"
    by (simp add: y index_entry_object idx'_def)
  have "zip_key r \<noteq> Some k"
    using Cons.prems(2)[of r] by (simp add: y)
  then have same: "idx' k = idx k"
    by (auto simp add: idx'_def split: option.splits)
  have "i k = idx' k"
    using Cons.IH[OF run] Cons.prems(2) by simp
  with same show ?case by simp
qed

text \<open>Every entry adds at most one key, and an entry without a truthy key adds none.\<close>

lemma forEach_index_card:
  "forEach_index zs idx = Inr i \<Longrightarrow> finite (dom idx) \<Longrightarrow>
   finite (dom i) \<and>
   card (dom i)
     + length (filter (\<lambda>z. case z of None \<Rightarrow> False
                            | Some r \<Rightarrow> zip_key r = None \<or> zip_key r = Some []) zs)
   \<le> card (dom idx) + length zs"
proof (induction zs arbitrary: idx)
  case Nil
  then show ?case by simp
next
  case (Cons z zs)
  from Cons.prems(1) obtain r where z: "z = Some r"
    by (cases z) (auto simp add: index_entry_def)
  define idx' where
    "idx' = (case zip_key r of None \<Rightarrow> idx | Some k' \<Rightarrow> if k' \<noteq> [] then idx(k' \<mapsto> r) else idx)"
  from Cons.prems(1) have run: "forEach_index zs idx' = Inr i"
    by (simp add: z index_entry_object idx'_def)
  have fin: "finite (dom idx')"
    using Cons.prems(2) by (simp add: idx'_def split: option.splits)
  note ih = Cons.IH[OF run fin]
  show ?case
  proof (cases "zip_key r = None \<or> zip_key r = Some []")
    case True
    then have "idx' = idx" by (auto simp add: idx'_def)
    with ih True show ?thesis by (simp add: z)
  next
    case False
    then obtain k where k: "zip_key r = Some k" "k \<noteq> []" by auto
    then have "idx' = idx(k \<mapsto> r)" by (simp add: idx'_def)
    then have grow: "card (dom idx') \<le> Suc (card (dom idx))"
      using Cons.prems(2) by (simp add: card_insert_if)
    have keep: "filter (\<lambda>z. case z of None \<Rightarrow> False
                    | Some r \<Rightarrow> zip_key r = None \<or> zip_key r = Some []) (z # zs)
        = filter (\<lambda>z. case z of None \<Rightarrow> False
                    | Some r \<Rightarrow> zip_key r = None \<or> zip_key r = Some []) zs"
      using k by (simp add: z)
    from ih grow show ?thesis unfolding keep by simp
  qed
qed

lemma try_load_throws:
  "try_load (Inl e) = Inl e"
  "try_load (Inr NotArray) = Inl TypeError"
  "None \<in> set zs \<Longrightarrow> try_load (Inr (Entries zs)) = Inl TypeError"
  by (simp_all add: try_load_def forEach_index_null)

lemma try_load_objects:
  "None \<notin> set zs \<Longrightarrow>
   \<exists>i. forEach_index zs Map.empty = Inr i
       \<and> try_load (Inr (Entries zs)) = Inr \<lparr>zipData = zs, zipIndex = i\<rparr>"
  using forEach_index_objects[of zs Map.empty] by (auto simp add: try_load_def)

text \<open>Whenever the \<^verbatim>\<open>try\<close> block throws, both globals are reset and the error is logged.\<close>

lemma loadZipData_catch:
  "try_load src = Inl e \<Longrightarrow>
   loadZipData src st = (\<lparr>zipData = [], zipIndex = Map.empty\<rparr>, ErrorLoading e)"
  by (simp add: loadZipData_def)

lemma trip_score_total:
  "trip_score st p d m = Inr t \<Longrightarrow>
   total_suggested_surcharge t =
     totalSurcharge (res_suggested_surcharge (pickup t)) (res_suggested_surcharge (delivery t))"
  by (auto simp add: trip_score_def Let_def split: option.splits if_splits)

section \<open>The ZIP data in memory: claims\<close>

text \<open>
  C1, as the source has it. When the source cannot be read or parsed, the \<^verbatim>\<open>catch\<close>
  block empties both globals, whatever was loaded before; the error goes to the console
  only, and \<^verbatim>\<open>POST /reload-zips\<close> answers \<^verbatim>\<open>reloaded\<close> with a count of 0.
\<close>

theorem failed_reload_empties_store:
  "reload_zips (Inl e) st =
     (\<lparr>zipData = [], zipIndex = Map.empty\<rparr>, \<lparr>status = ''reloaded'', total_zips = 0\<rparr>)
   \<and> loadZipData (Inl e) st = (\<lparr>zipData = [], zipIndex = Map.empty\<rparr>, ErrorLoading e)"
  by (simp add: reload_zips_def loadZipData_def try_load_def)

text \<open>
  C1 fails as stated. A store loaded from one record resolves the key 59001; after a
  reload whose source does not parse, the same lookup finds nothing, and the response is
  the one a successful reload of an empty array gives.
\<close>

theorem failed_reload_loses_lookup:
  "zipIndex (fst (loadZipData
       (Inr (Entries [Some \<lparr>zip_key = Some ''59001'', city = Some ''Absarokee'',
          state = Some ''MT'', population_density = Some 12,
          drive_time_city_100k_min = Some 70, drive_time_interstate_min = Some 25,
          is_mountain = Some True, is_island = None, winter_risk = Some True,
          carrier_scarcity_index = Some 0.5\<rparr>]))
       \<lparr>zipData = [], zipIndex = Map.empty\<rparr>)) ''59001''
     = Some \<lparr>zip_key = Some ''59001'', city = Some ''Absarokee'',
          state = Some ''MT'', population_density = Some 12,
          drive_time_city_100k_min = Some 70, drive_time_interstate_min = Some 25,
          is_mountain = Some True, is_island = None, winter_risk = Some True,
          carrier_scarcity_index = Some 0.5\<rparr>
   \<and> zipIndex (fst (reload_zips (Inl SyntaxError)
        (fst (loadZipData
          (Inr (Entries [Some \<lparr>zip_key = Some ''59001'', city = Some ''Absarokee'',
             state = Some ''MT'', population_density = Some 12,
             drive_time_city_100k_min = Some 70, drive_time_interstate_min = Some 25,
             is_mountain = Some True, is_island = None, winter_risk = Some True,
             carrier_scarcity_index = Some 0.5\<rparr>]))
          \<lparr>zipData = [], zipIndex = Map.empty\<rparr>)))) ''59001'' = None
   \<and> snd (reload_zips (Inl SyntaxError)
        (fst (loadZipData
          (Inr (Entries [Some \<lparr>zip_key = Some ''59001'', city = Some ''Absarokee'',
             state = Some ''MT'', population_density = Some 12,
             drive_time_city_100k_min = Some 70, drive_time_interstate_min = Some 25,
             is_mountain = Some True, is_island = None, winter_risk = Some True,
             carrier_scarcity_index = Some 0.5\<rparr>]))
          \<lparr>zipData = [], zipIndex = Map.empty\<rparr>)))
     = \<lparr>status = ''reloaded'', total_zips = 0\<rparr>
   \<and> snd (reload_zips (Inr (Entries [])) \<lparr>zipData = [], zipIndex = Map.empty\<rparr>)
     = \<lparr>status = ''reloaded'', total_zips = 0\<rparr>"
  by (simp add: reload_zips_def loadZipData_def try_load_def index_entry_def)

text \<open>
  C9. When every entry of the array is an object, the load succeeds, and a key looks up
  the last entry that carries it: the entry \<open>r\<close> with key \<open>k\<close>, whatever precedes it, as
  long as no entry after it has the key \<open>k\<close>.
\<close>

theorem duplicate_key_last_wins:
  assumes "None \<notin> set zs"
    and "zs = xs @ Some r # ys"
    and "zip_key r = Some k" and "k \<noteq> []"
    and "\<forall>r'. Some r' \<in> set ys \<longrightarrow> zip_key r' \<noteq> Some k"
  shows "zipData (fst (loadZipData (Inr (Entries zs)) st)) = zs
    \<and> zipIndex (fst (loadZipData (Inr (Entries zs)) st)) k = Some r
    \<and> snd (loadZipData (Inr (Entries zs)) st) = Loaded (length zs)"
proof -
  from try_load_objects[OF assms(1)] obtain i where
    run: "forEach_index zs Map.empty = Inr i" and
    loaded: "try_load (Inr (Entries zs)) = Inr \<lparr>zipData = zs, zipIndex = i\<rparr>"
    by blast
  have "None \<notin> set xs" using assms(1,2) by simp
  from forEach_index_objects[OF this] obtain i1 where
    front: "forEach_index xs Map.empty = Inr i1" by blast
  have "forEach_index zs Map.empty = forEach_index ys (i1(k \<mapsto> r))"
    using assms(3,4) front
    by (simp add: assms(2) forEach_index_append index_entry_object)
  with run have rest: "forEach_index ys (i1(k \<mapsto> r)) = Inr i" by simp
  have "i k = (i1(k \<mapsto> r)) k"
    using forEach_index_other_keys[OF rest] assms(5) by blast
  then have "i k = Some r" by simp
  with loaded show ?thesis by (simp add: loadZipData_def)
qed

theorem duplicate_key_last_wins_witness:
  "zipIndex (fst (loadZipData
      (Inr (Entries
        [Some \<lparr>zip_key = Some ''59001'', city = Some ''First'', state = None,
               population_density = None, drive_time_city_100k_min = None,
               drive_time_interstate_min = None, is_mountain = None, is_island = None,
               winter_risk = None, carrier_scarcity_index = None\<rparr>,
         Some \<lparr>zip_key = Some ''59001'', city = Some ''Second'', state = None,
               population_density = None, drive_time_city_100k_min = None,
               drive_time_interstate_min = None, is_mountain = None, is_island = None,
               winter_risk = None, carrier_scarcity_index = None\<rparr>]))
      \<lparr>zipData = [], zipIndex = Map.empty\<rparr>)) ''59001''
   = Some \<lparr>zip_key = Some ''59001'', city = Some ''Second'', state = None,
            population_density = None, drive_time_city_100k_min = None,
            drive_time_interstate_min = None, is_mountain = None, is_island = None,
            winter_risk = None, carrier_scarcity_index = None\<rparr>"
proof -
  let ?r1 = "\<lparr>zip_key = Some ''59001'', city = Some ''First'', state = None,
               population_density = None, drive_time_city_100k_min = None,
               drive_time_interstate_min = None, is_mountain = None, is_island = None,
               winter_risk = None, carrier_scarcity_index = None\<rparr>"
  let ?r2 = "\<lparr>zip_key = Some ''59001'', city = Some ''Second'', state = None,
               population_density = None, drive_time_city_100k_min = None,
               drive_time_interstate_min = None, is_mountain = None, is_island = None,
               winter_risk = None, carrier_scarcity_index = None\<rparr>"
  have h1: "None \<notin> set [Some ?r1, Some ?r2]" by simp
  have h2: "[Some ?r1, Some ?r2] = [Some ?r1] @ Some ?r2 # []" by simp
  have h3: "zip_key ?r2 = Some ''59001''" by simp
  have h4: "''59001'' \<noteq> []" by simp
  have h5: "\<forall>r'. Some r' \<in> set [] \<longrightarrow> zip_key r' \<noteq> Some ''59001''" by simp
  from duplicate_key_last_wins[OF h1 h2 h3 h4 h5, of "\<lparr>zipData = [], zipIndex = Map.empty\<rparr>"]
  show ?thesis by (rule conjunct1[OF conjunct2])
qed

text \<open>
  C10. After a reload of an array of objects, the count in the response is the length of
  the array. Every entry without a key, or with the empty key, is in that count but adds
  no key to the index, so the keys that resolve and the skipped entries together are at
  most the count.
\<close>

theorem reload_count_is_array_length:
  assumes "None \<notin> set zs"
  shows "total_zips (snd (reload_zips (Inr (Entries zs)) st)) = length zs
    \<and> zipData (fst (reload_zips (Inr (Entries zs)) st)) = zs
    \<and> card (dom (zipIndex (fst (reload_zips (Inr (Entries zs)) st))))
        + length (filter (\<lambda>z. case z of None \<Rightarrow> False
                               | Some r \<Rightarrow> zip_key r = None \<or> zip_key r = Some []) zs)
      \<le> total_zips (snd (reload_zips (Inr (Entries zs)) st))"
proof -
  from try_load_objects[OF assms] obtain i where
    run: "forEach_index zs Map.empty = Inr i" and
    loaded: "try_load (Inr (Entries zs)) = Inr \<lparr>zipData = zs, zipIndex = i\<rparr>"
    by blast
  have st': "reload_zips (Inr (Entries zs)) st =
      (\<lparr>zipData = zs, zipIndex = i\<rparr>, \<lparr>status = ''reloaded'', total_zips = length zs\<rparr>)"
    using loaded by (simp add: reload_zips_def loadZipData_def)
  from forEach_index_card[OF run] have
    "card (dom i)
       + length (filter (\<lambda>z. case z of None \<Rightarrow> False
                              | Some r \<Rightarrow> zip_key r = None \<or> zip_key r = Some []) zs)
     \<le> length zs"
    by simp
  with st' show ?thesis by simp
qed

theorem reload_count_is_array_length_witness:
  "total_zips (snd (reload_zips
      (Inr (Entries
        [Some \<lparr>zip_key = None, city = Some ''Nowhere'', state = None,
               population_density = None, drive_time_city_100k_min = None,
               drive_time_interstate_min = None, is_mountain = None, is_island = None,
               winter_risk = None, carrier_scarcity_index = None\<rparr>,
         Some \<lparr>zip_key = Some ''59001'', city = None, state = None,
               population_density = None, drive_time_city_100k_min = None,
               drive_time_interstate_min = None, is_mountain = None, is_island = None,
               winter_risk = None, carrier_scarcity_index = None\<rparr>]))
      \<lparr>zipData = [], zipIndex = Map.empty\<rparr>)) = 2
   \<and> card (dom (zipIndex (fst (reload_zips
      (Inr (Entries
        [Some \<lparr>zip_key = None, city = Some ''Nowhere'', state = None,
               population_density = None, drive_time_city_100k_min = None,
               drive_time_interstate_min = None, is_mountain = None, is_island = None,
               winter_risk = None, carrier_scarcity_index = None\<rparr>,
         Some \<lparr>zip_key = Some ''59001'', city = None, state = None,
               population_density = None, drive_time_city_100k_min = None,
               drive_time_interstate_min = None, is_mountain = None, is_island = None,
               winter_risk = None, carrier_scarcity_index = None\<rparr>]))
      \<lparr>zipData = [], zipIndex = Map.empty\<rparr>)))) = 1"
proof -
  let ?r1 = "\<lparr>zip_key = None, city = Some ''Nowhere'', state = None,
               population_density = None, drive_time_city_100k_min = None,
               drive_time_interstate_min = None, is_mountain = None, is_island = None,
               winter_risk = None, carrier_scarcity_index = None\<rparr>"
  let ?r2 = "\<lparr>zip_key = Some ''59001'', city = None, state = None,
               population_density = None, drive_time_city_100k_min = None,
               drive_time_interstate_min = None, is_mountain = None, is_island = None,
               winter_risk = None, carrier_scarcity_index = None\<rparr>"
  let ?st = "\<lparr>zipData = [], zipIndex = Map.empty\<rparr>"
  have h: "None \<notin> set [Some ?r1, Some ?r2]" by simp
  note inst = reload_count_is_array_length[OF h, of ?st]
  have count: "total_zips (snd (reload_zips (Inr (Entries [Some ?r1, Some ?r2])) ?st)) = 2"
    using conjunct1[OF inst] by simp
  have keys: "card (dom (zipIndex (fst (reload_zips (Inr (Entries [Some ?r1, Some ?r2])) ?st)))) = 1"
    by (simp add: reload_zips_def loadZipData_def try_load_def index_entry_def)
  from count keys show ?thesis by (rule conjI)
qed

end
